theory Spec2Isabelle
  imports Main "HOL-Library.Word" "HOL-Library.Signed_Division"
begin

section \<open>Basic types\<close>

text \<open>
  Go's \<^verbatim>\<open>int64\<close> is a 64-bit word; \<open>+\<close> and \<open>*\<close> wrap around and every comparison of
  the source is a signed one, written here on \<open>sint\<close>. A \<^verbatim>\<open>[]byte\<close> is a list of
  bytes; the nil slice has length 0 and is the empty list. A Go \<^verbatim>\<open>error\<close> is
  represented by the text its \<^verbatim>\<open>Error()\<close> method returns, and a nil error by \<open>None\<close>.
\<close>

type_synonym int64 = "64 word"
type_synonym bytes = "8 word list"
type_synonym error = string
type_synonym Time = int

text \<open>The values of \<^verbatim>\<open>fuse.Error\<close> that the program returns; nil is \<open>None\<close>.\<close>

datatype Errno = EROFS | ENOENT | EINTR

type_synonym fuse_Error = "Errno option"

text \<open>\<^verbatim>\<open>strings.HasPrefix\<close> and \<^verbatim>\<open>strings.Contains\<close>.\<close>

fun HasPrefix :: "string \<Rightarrow> string \<Rightarrow> bool" where
  "HasPrefix s [] = True"
| "HasPrefix [] (p # ps) = False"
| "HasPrefix (c # cs) (p # ps) = (c = p \<and> HasPrefix cs ps)"

fun Contains :: "string \<Rightarrow> string \<Rightarrow> bool" where
  "Contains [] substr = (substr = [])"
| "Contains (c # cs) substr = (HasPrefix (c # cs) substr \<or> Contains cs substr)"

section \<open>The local cache and \<^verbatim>\<open>SubFile.ReadAll\<close>\<close>

text \<open>
  \<^verbatim>\<open>SubFile\<close>: the fields \<open>ID\<close>, \<open>Created\<close>, \<open>FileName\<close> and \<open>Size\<close> are those of the
  struct next to \<^verbatim>\<open>ReadAll\<close>; \<open>IsArt\<close>, \<open>IsVideo\<close> and \<open>Lossless\<close> are the further fields
  that \<^verbatim>\<open>SubDir.ReadDir\<close> fills in. \<^verbatim>\<open>ReadAll\<close> reads \<open>ID\<close>, \<open>FileName\<close> and \<open>Size\<close> only.
\<close>

record SubFile =
  ID :: int64
  Created :: Time
  FileName :: string
  IsArt :: bool
  IsVideo :: bool
  Lossless :: bool
  Size :: int64

text \<open>An \<^verbatim>\<open>os.File\<close> is observed through \<^verbatim>\<open>Name()\<close> and \<^verbatim>\<open>Close()\<close> only.\<close>

datatype os_File = os_File (Name: string)

text \<open>The two globals \<^verbatim>\<open>fileCache\<close> and \<^verbatim>\<open>cacheTotal\<close>.\<close>

record cache =
  fileCache :: "string \<rightharpoonup> os_File"
  cacheTotal :: int64

definition emptyCache :: cache where
  "emptyCache = \<lparr>fileCache = Map.empty, cacheTotal = 0\<rparr>"

text \<open>
  What \<^verbatim>\<open>subsonic.Stream\<close>, \<^verbatim>\<open>ioutil.ReadAll\<close> and \<^verbatim>\<open>stream.Close\<close> do for one item: the
  first of the three that fails, or the bytes read.
\<close>

datatype stream_outcome =
  OpenFails error | ReadFails error | CloseFails error | Streamed bytes

text \<open>
  Everything outside the program that one call of \<^verbatim>\<open>ReadAll\<close> observes:
  \<^item> \<open>ReadFile\<close>: \<^verbatim>\<open>ioutil.ReadFile\<close> of a path, its bytes and its error;
  \<^item> \<open>Close\<close>: the error of closing the cached file handle;
  \<^item> \<open>Stream\<close>: the remote stream of an item id;
  \<^item> \<open>TempFile\<close>: \<^verbatim>\<open>ioutil.TempFile\<close>, an error or the new file;
  \<^item> \<open>Write\<close>: the error of writing the temporary file;
  \<^item> \<open>intr\<close>: whether the \<^verbatim>\<open>select\<close> of \<^verbatim>\<open>ReadAll\<close> takes the interrupt channel rather
    than the byte channel.
\<close>

record world =
  ReadFile :: "string \<Rightarrow> bytes \<times> error option"
  Close :: "string \<Rightarrow> error option"
  Stream :: "int64 \<Rightarrow> stream_outcome"
  TempFile :: "error + os_File"
  Write :: "error option"
  intr :: bool

text \<open>The lines the goroutine writes to the log, without their numbers.\<close>

datatype log_line =
  CacheMissing | CacheUse | LogError error | CachedFile | OpeningStream
  | ClosingStream | CacheFull | WillOverflow | TooLarge | CachingFile

text \<open>
  The first block of the goroutine (\<^verbatim>\<open>if cFile, ok := fileCache[s.FileName]; ok\<close>). The
  condition \<^verbatim>\<open>len(buf) == 0 && strings.Contains(err.Error(), ...)\<close> calls \<^verbatim>\<open>Error\<close> on
  \<open>err\<close> as soon as the buffer is empty; on a nil \<open>err\<close> that is a nil dereference,
  a panic of the goroutine, which ends the process.
\<close>

datatype lookup = Hit bytes | Miss | Crash

definition cacheCheck :: "SubFile \<Rightarrow> world \<Rightarrow> cache \<Rightarrow> lookup \<times> log_line list \<times> cache" where
  "cacheCheck s w c =
     (case fileCache c (FileName s) of
        None \<Rightarrow> (Miss, [], c)
      | Some cFile \<Rightarrow>
          (case ReadFile w (Name cFile) of
             (buf, err) \<Rightarrow>
               if length buf = 0 then
                 (case err of
                    None \<Rightarrow> (Crash, [], c)
                  | Some msg \<Rightarrow>
                      if Contains msg ''no such file or directory'' then
                        (Miss,
                         [CacheMissing, CacheUse]
                           @ (case Close w (Name cFile) of None \<Rightarrow> [] | Some e \<Rightarrow> [LogError e]),
                         c\<lparr>fileCache := (fileCache c)(FileName s := None),
                           cacheTotal := cacheTotal c + (- 1) * Size s\<rparr>)
                      else (Hit buf, [CachedFile], c))
               else (Hit buf, [CachedFile], c)))"

text \<open>
  The last block of the goroutine, after the bytes have been handed over: the three
  checks in the order of the source, then the temporary file, the map entry and the
  total. \<open>cacheSize\<close> is the \<^verbatim>\<open>-cache\<close> flag, in megabytes.
\<close>

definition admit :: "int64 \<Rightarrow> SubFile \<Rightarrow> world \<Rightarrow> cache \<Rightarrow> log_line list \<times> cache" where
  "admit cacheSize s w c =
     (if sint (cacheSize * 1024 * 1024) < sint (cacheTotal c) then ([CacheFull], c)
      else if sint (cacheSize * 1024 * 1024) < sint (cacheTotal c + Size s)
        then ([WillOverflow], c)
      else if sint (50 * 1024 * 1024 :: int64) < sint (Size s) then ([TooLarge], c)
      else
        (case TempFile w of
           Inl e \<Rightarrow> ([LogError e], c)
         | Inr tmpFile \<Rightarrow>
             (case Write w of
                Some e \<Rightarrow> ([LogError e], c)
              | None \<Rightarrow>
                  ([CachingFile, CacheUse],
                   c\<lparr>fileCache := (fileCache c)(FileName s \<mapsto> tmpFile),
                     cacheTotal := cacheTotal c + Size s\<rparr>))))"

text \<open>
  What \<^verbatim>\<open>ReadAll\<close> gives back: the pair of the source, or the panic of its goroutine.
\<close>

datatype outcome = Returned bytes fuse_Error | Panicked

text \<open>
  The \<^verbatim>\<open>select\<close>: the value sent on \<^verbatim>\<open>byteChan\<close> comes back with a nil error, unless the
  interrupt is taken; then the goroutine stays blocked in its send for ever.
\<close>

definition deliver :: "world \<Rightarrow> bytes \<Rightarrow> outcome" where
  "deliver w stream = (if intr w then Returned [] (Some EINTR) else Returned stream None)"

text \<open>
  The middle block: open, read, close, each failure logged and answered by a nil send;
  after the send of the bytes the goroutine goes on to \<open>admit\<close>, which it never reaches
  when the interrupt has been taken.
\<close>

definition fetch :: "int64 \<Rightarrow> SubFile \<Rightarrow> world \<Rightarrow> cache \<Rightarrow> outcome \<times> log_line list \<times> cache" where
  "fetch cacheSize s w c =
     (case Stream w (ID s) of
        OpenFails e \<Rightarrow> (deliver w [], [OpeningStream, LogError e], c)
      | ReadFails e \<Rightarrow> (deliver w [], [OpeningStream, LogError e], c)
      | CloseFails e \<Rightarrow> (deliver w [], [OpeningStream, LogError e], c)
      | Streamed file \<Rightarrow>
          if intr w then (deliver w file, [OpeningStream, ClosingStream], c)
          else (case admit cacheSize s w c of
                  (l, c') \<Rightarrow> (deliver w file, [OpeningStream, ClosingStream] @ l, c')))"

definition ReadAll :: "int64 \<Rightarrow> SubFile \<Rightarrow> world \<Rightarrow> cache \<Rightarrow> outcome \<times> log_line list \<times> cache" where
  "ReadAll cacheSize s w c =
     (case cacheCheck s w c of
        (Crash, l, c') \<Rightarrow> (Panicked, l, c')
      | (Hit buf, l, c') \<Rightarrow> (deliver w buf, l, c')
      | (Miss, l, c') \<Rightarrow>
          (case fetch cacheSize s w c' of (r, l', c'') \<Rightarrow> (r, l @ l', c'')))"

text \<open>
  A sequence of reads, one after the other, each with what it observes of the world.
  A panic ends the process: there is no cache after it.
\<close>

fun reads :: "int64 \<Rightarrow> (SubFile \<times> world) list \<Rightarrow> cache \<Rightarrow> cache option" where
  "reads cacheSize [] c = Some c"
| "reads cacheSize ((s, w) # rest) c =
     (case ReadAll cacheSize s w c of
        (Panicked, l, c') \<Rightarrow> None
      | (Returned stream err, l, c') \<Rightarrow> reads cacheSize rest c')"

section \<open>The index refresh loop \<^verbatim>\<open>cacheIndexes\<close>\<close>

text \<open>The parts of the client's \<^verbatim>\<open>MusicFolder\<close>, \<^verbatim>\<open>IndexArtist\<close> and \<^verbatim>\<open>Index\<close> that are read.\<close>

record MusicFolder =
  ID :: int64
  Name :: string

record IndexArtist =
  ID :: int64
  Name :: string

record Index =
  Artist :: "IndexArtist list"

text \<open>
  The global \<^verbatim>\<open>artistsIndex\<close> is a Go map keyed by the folder. It is kept as a list of
  pairs without repeated keys, whose order stands for the order in which \<^verbatim>\<open>range\<close>
  visits the map (Go leaves that order open); \<open>assign\<close> is \<^verbatim>\<open>m[k] = v\<close>.
\<close>

type_synonym artistsIndex = "(MusicFolder \<times> IndexArtist list) list"

fun assign :: "'k \<Rightarrow> 'v \<Rightarrow> ('k \<times> 'v) list \<Rightarrow> ('k \<times> 'v) list" where
  "assign k v [] = [(k, v)]"
| "assign k v ((k', v') # m) = (if k' = k then (k, v) # m else (k', v') # assign k v m)"

text \<open>
  What one turn of the loop observes: the answer to \<^verbatim>\<open>GetMusicFolders\<close>, the answer to
  \<^verbatim>\<open>GetIndexes\<close> for a folder id, and whether some reader takes the value sent on the
  unbuffered \<^verbatim>\<open>indexChan\<close> (the send waits until one does).
\<close>

record cycle =
  GetMusicFolders :: "error + MusicFolder list"
  GetIndexes :: "int64 \<Rightarrow> error + Index list"
  receiver :: bool

datatype index_log = FailedFolders error | FailedIndexes error | Caching nat | Finished

text \<open>The inner \<^verbatim>\<open>for _, folder := range folders\<close>; a failed folder is skipped.\<close>

fun cacheFolders ::
  "(int64 \<Rightarrow> error + Index list) \<Rightarrow> MusicFolder list \<Rightarrow> artistsIndex
     \<Rightarrow> index_log list \<times> artistsIndex" where
  "cacheFolders getIndexes [] idx = ([], idx)"
| "cacheFolders getIndexes (folder # folders) idx =
     (case getIndexes (MusicFolder.ID folder) of
        Inl e \<Rightarrow>
          (case cacheFolders getIndexes folders idx of
             (l, idx') \<Rightarrow> (FailedIndexes e # l, idx'))
      | Inr indexes \<Rightarrow>
          (let artists = fold (\<lambda>i acc. fold (\<lambda>a acc. acc @ [a]) (Artist i) acc) indexes []
           in case cacheFolders getIndexes folders (assign folder artists idx) of
                (l, idx') \<Rightarrow> (Caching (length artists) # l, idx')))"

text \<open>
  The outer \<^verbatim>\<open>for\<close> has no exit of its own. It is run against the turns the world
  provides, and ends in one of three ways: the function has returned, it waits for
  ever in the send on \<^verbatim>\<open>indexChan\<close>, or it has done every turn provided and sleeps
  until the next one. \<open>fetches\<close> counts the calls of \<^verbatim>\<open>GetMusicFolders\<close>.
\<close>

datatype loop_end = HasReturned | BlockedOnSend | Sleeping

record refresh =
  ending :: loop_end
  index :: artistsIndex
  fetches :: nat
  lines :: "index_log list"

fun cacheIndexes :: "cycle list \<Rightarrow> artistsIndex \<Rightarrow> refresh" where
  "cacheIndexes [] idx = \<lparr>ending = Sleeping, index = idx, fetches = 0, lines = []\<rparr>"
| "cacheIndexes (t # ts) idx =
     (case GetMusicFolders t of
        Inl e \<Rightarrow>
          \<lparr>ending = HasReturned, index = idx, fetches = 1, lines = [FailedFolders e]\<rparr>
      | Inr folders \<Rightarrow>
          (case cacheFolders (GetIndexes t) folders idx of
             (l, idx') \<Rightarrow>
               if receiver t then
                 (let r = cacheIndexes ts idx'
                  in r\<lparr>fetches := Suc (fetches r), lines := l @ Finished # lines r\<rparr>)
               else
                 \<lparr>ending = BlockedOnSend, index = idx', fetches = 1,
                  lines = l @ [Finished]\<rparr>))"

section \<open>File names\<close>

text \<open>\<^verbatim>\<open>strings.HasSuffix\<close> and \<^verbatim>\<open>strings.TrimSuffix\<close>.\<close>

definition HasSuffix :: "string \<Rightarrow> string \<Rightarrow> bool" where
  "HasSuffix s suffix = HasPrefix (rev s) (rev suffix)"

definition TrimSuffix :: "string \<Rightarrow> string \<Rightarrow> string" where
  "TrimSuffix s suffix = (if HasSuffix s suffix then take (length s - length suffix) s else s)"

text \<open>
  \<^verbatim>\<open>strings.Replace(s, old, new, -1)\<close>: every occurrence of \<open>old\<close>, from the left and
  without overlap; the first argument of \<open>replaceFrom\<close> counts the characters of a
  match that are still to be passed over. An empty \<open>old\<close> matches before every
  character and at the end.
\<close>

fun replaceFrom :: "nat \<Rightarrow> string \<Rightarrow> string \<Rightarrow> string \<Rightarrow> string" where
  "replaceFrom n [] old new = (if old = [] then new else [])"
| "replaceFrom 0 (c # cs) old new =
     (if old = [] then new @ c # replaceFrom 0 cs old new
      else if HasPrefix (c # cs) old then new @ replaceFrom (length old - 1) cs old new
      else c # replaceFrom 0 cs old new)"
| "replaceFrom (Suc n) (c # cs) old new = replaceFrom n cs old new"

definition Replace :: "string \<Rightarrow> string \<Rightarrow> string \<Rightarrow> string" where
  "Replace s old new = replaceFrom 0 s old new"

text \<open>The list \<^verbatim>\<open>badChars\<close> and the loop over it that follows every rendered name.\<close>

definition badChars :: "string list" where
  "badChars = [''/'', [CHR 0x5C]]"

definition replaceBadChars :: "string \<Rightarrow> string" where
  "replaceBadChars filename = fold (\<lambda>b f. Replace f b ''_'') badChars filename"

text \<open>The verb \<^verbatim>\<open>%d\<close> on an \<^verbatim>\<open>int64\<close>: decimal digits, with a sign when negative.\<close>

function showNat :: "nat \<Rightarrow> string" where
  "showNat n = (if n < 10 then [''0123456789'' ! n] else showNat (n div 10) @ [''0123456789'' ! (n mod 10)])"
  by pat_completeness auto
termination
  by (relation "measure id") auto

declare showNat.simps [simp del]

definition showInt64 :: "int64 \<Rightarrow> string" where
  "showInt64 i = (if sint i < 0 then ''-'' @ showNat (nat (- sint i)) else showNat (nat (sint i)))"

section \<open>The remote listing and the template context\<close>

text \<open>The fields of the client's \<^verbatim>\<open>Directory\<close>, \<^verbatim>\<open>Audio\<close> and \<^verbatim>\<open>Video\<close> that are read.\<close>

record Directory =
  ID :: int64
  Title :: string
  CoverArt :: int64

record Audio =
  ID :: int64
  Created :: Time
  Artist :: string
  Album :: string
  Track :: int64
  Title :: string
  Suffix :: string
  TranscodedSuffix :: string
  Size :: int64
  DurationRaw :: int64
  Path :: string
  CoverArt :: int64

record Video =
  ID :: int64
  Created :: Time
  Title :: string
  Suffix :: string
  Size :: int64
  CoverArt :: int64

record Content =
  Directories :: "Directory list"
  Audio :: "Audio list"
  Video :: "Video list"

text \<open>The anonymous struct \<^verbatim>\<open>filenameCtx\<close> handed to the template.\<close>

record filenameCtx =
  A :: Audio
  Artist :: string
  Album :: string
  Track :: int64
  Title :: string
  Suffix :: string
  Path :: string
  Basename :: string

text \<open>
  One element of \<^verbatim>\<open>transcodes\<close>, and the two elements built for an audio record: its
  own suffix with its size, then the transcoded suffix with size 0.
\<close>

record transcode =
  suffix :: string
  size' :: int64

definition transcodes :: "Audio \<Rightarrow> transcode list" where
  "transcodes a =
     [\<lparr>suffix = Audio.Suffix a, size' = Audio.Size a\<rparr>,
      \<lparr>suffix = TranscodedSuffix a, size' = 0\<rparr>]"

definition mkFilenameCtx :: "Audio \<Rightarrow> transcode \<Rightarrow> filenameCtx" where
  "mkFilenameCtx a t =
     \<lparr>A = a, Artist = Audio.Artist a, Album = Audio.Album a, Track = Audio.Track a,
      Title = Audio.Title a, Suffix = Audio.Suffix a, Path = Audio.Path a,
      Basename = TrimSuffix (Audio.Path a) (suffix t)\<rparr>"

section \<open>The filename template\<close>

text \<open>
  \<^verbatim>\<open>ReadDir\<close> runs the parsed template through \<^verbatim>\<open>filenameTemplate.Execute\<close>, a function
  of the context that gives the rendered text or an error; the listing takes that
  function as it is. For the templates that are written out below, the part of Go's
  \<^verbatim>\<open>text/template\<close> that they need is given here: literal text and actions that are
  a chain of fields, such as \<^verbatim>\<open>{{.A.Track}}\<close>, over the fields whose values are strings
  or integers. Anything else is answered by an error.
\<close>

datatype node = TextNode string | FieldNode "string list"

type_synonym template = "node list"

fun splitDots :: "string \<Rightarrow> string list" where
  "splitDots [] = [[]]"
| "splitDots (c # cs) =
     (if c = CHR ''.'' then [] # splitDots cs
      else (case splitDots cs of [] \<Rightarrow> [[c]] | w # ws \<Rightarrow> (c # w) # ws))"

definition isIdentChar :: "char \<Rightarrow> bool" where
  "isIdentChar c =
     (c \<in> set ''abcdefghijklmnopqrstuvwxyzABCDEFGHIJKLMNOPQRSTUVWXYZ0123456789_'')"

definition trimSpaces :: "string \<Rightarrow> string" where
  "trimSpaces s = rev (dropWhile (\<lambda>c. c = CHR '' '') (rev (dropWhile (\<lambda>c. c = CHR '' '') s)))"

definition fieldAction :: "string \<Rightarrow> error + node" where
  "fieldAction s =
     (case trimSpaces s of
        [] \<Rightarrow> Inl ''missing value for command''
      | c # cs \<Rightarrow>
          if c = CHR ''.'' \<and> list_all (\<lambda>w. w \<noteq> [] \<and> list_all isIdentChar w) (splitDots cs)
          then Inr (FieldNode (splitDots cs))
          else Inl ''unsupported action'')"

definition textNode :: "string \<Rightarrow> node list" where
  "textNode acc = (if acc = [] then [] else [TextNode (rev acc)])"

datatype lex = InText | LeftBrace | InAction | RightBrace

fun scan :: "lex \<Rightarrow> string \<Rightarrow> string \<Rightarrow> error + template" where
  "scan InText acc [] = Inr (textNode acc)"
| "scan LeftBrace acc [] = Inr (textNode (CHR ''{'' # acc))"
| "scan InAction acc [] = Inl ''unclosed action''"
| "scan RightBrace acc [] = Inl ''unclosed action''"
| "scan InText acc (c # cs) =
     (if c = CHR ''{'' then scan LeftBrace acc cs else scan InText (c # acc) cs)"
| "scan LeftBrace acc (c # cs) =
     (if c = CHR ''{'' then
        (case scan InAction [] cs of Inl e \<Rightarrow> Inl e | Inr ns \<Rightarrow> Inr (textNode acc @ ns))
      else scan InText (c # CHR ''{'' # acc) cs)"
| "scan InAction acc (c # cs) =
     (if c = CHR ''}'' then scan RightBrace acc cs else scan InAction (c # acc) cs)"
| "scan RightBrace acc (c # cs) =
     (if c = CHR ''}'' then
        (case fieldAction (rev acc) of
           Inl e \<Rightarrow> Inl e
         | Inr n \<Rightarrow> (case scan InText [] cs of Inl e \<Rightarrow> Inl e | Inr ns \<Rightarrow> Inr (n # ns)))
      else Inl ''unexpected right brace'')"

definition Parse :: "string \<Rightarrow> error + template" where
  "Parse text = scan InText [] text"

definition audioField :: "Audio \<Rightarrow> string \<Rightarrow> error + string" where
  "audioField a f =
     (if f = ''ID'' then Inr (showInt64 (Audio.ID a))
      else if f = ''Artist'' then Inr (Audio.Artist a)
      else if f = ''Album'' then Inr (Audio.Album a)
      else if f = ''Track'' then Inr (showInt64 (Audio.Track a))
      else if f = ''Title'' then Inr (Audio.Title a)
      else if f = ''Suffix'' then Inr (Audio.Suffix a)
      else if f = ''TranscodedSuffix'' then Inr (TranscodedSuffix a)
      else if f = ''Size'' then Inr (showInt64 (Audio.Size a))
      else if f = ''DurationRaw'' then Inr (showInt64 (DurationRaw a))
      else if f = ''Path'' then Inr (Audio.Path a)
      else if f = ''CoverArt'' then Inr (showInt64 (Audio.CoverArt a))
      else Inl ''can't evaluate field'')"

definition evalField :: "filenameCtx \<Rightarrow> string list \<Rightarrow> error + string" where
  "evalField ctx p =
     (case p of
        [f] \<Rightarrow>
          if f = ''Artist'' then Inr (filenameCtx.Artist ctx)
          else if f = ''Album'' then Inr (filenameCtx.Album ctx)
          else if f = ''Track'' then Inr (showInt64 (filenameCtx.Track ctx))
          else if f = ''Title'' then Inr (filenameCtx.Title ctx)
          else if f = ''Suffix'' then Inr (filenameCtx.Suffix ctx)
          else if f = ''Path'' then Inr (filenameCtx.Path ctx)
          else if f = ''Basename'' then Inr (Basename ctx)
          else Inl ''can't evaluate field''
      | [r, f] \<Rightarrow> if r = ''A'' then audioField (A ctx) f else Inl ''can't evaluate field''
      | _ \<Rightarrow> Inl ''can't evaluate field'')"

fun Execute :: "template \<Rightarrow> filenameCtx \<Rightarrow> error + string" where
  "Execute [] ctx = Inr []"
| "Execute (TextNode s # ns) ctx =
     (case Execute ns ctx of Inl e \<Rightarrow> Inl e | Inr r \<Rightarrow> Inr (s @ r))"
| "Execute (FieldNode p # ns) ctx =
     (case evalField ctx p of
        Inl e \<Rightarrow> Inl e
      | Inr v \<Rightarrow> (case Execute ns ctx of Inl e \<Rightarrow> Inl e | Inr r \<Rightarrow> Inr (v @ r)))"

text \<open>Whether some action of the template names the field \<open>f\<close>.\<close>

fun mentions :: "template \<Rightarrow> string \<Rightarrow> bool" where
  "mentions [] f = False"
| "mentions (TextNode s # ns) f = mentions ns f"
| "mentions (FieldNode p # ns) f = (f \<in> set p \<or> mentions ns f)"

section \<open>Directories: \<^verbatim>\<open>SubDir\<close> and \<^verbatim>\<open>ReadDir\<close>\<close>

datatype DirentType = DT_Dir | DT_File

record Dirent =
  Name :: string
  Type :: DirentType

text \<open>
  \<^verbatim>\<open>SubDir\<close>; its two Go maps are shared by every copy of the struct, so what \<^verbatim>\<open>ReadDir\<close>
  stores in them stays: the model gives the directory back with its maps updated.
\<close>

datatype SubDir =
  SubDir (ID: int64) (Root: bool) (Folder: bool)
    (dirs: "string \<rightharpoonup> SubDir") (files: "string \<rightharpoonup> SubFile")

definition NewSubDir :: "int64 \<Rightarrow> bool \<Rightarrow> bool \<Rightarrow> SubDir" where
  "NewSubDir i root folder = SubDir i root folder Map.empty Map.empty"

text \<open>\<^verbatim>\<open>d.dirs[name] = sub\<close> and \<^verbatim>\<open>d.files[name] = f\<close>.\<close>

definition putDir :: "string \<Rightarrow> SubDir \<Rightarrow> SubDir \<Rightarrow> SubDir" where
  "putDir name sub d =
     SubDir (SubDir.ID d) (Root d) (Folder d) ((dirs d)(name \<mapsto> sub)) (files d)"

definition putFile :: "string \<Rightarrow> SubFile \<Rightarrow> SubDir \<Rightarrow> SubDir" where
  "putFile name f d =
     SubDir (SubDir.ID d) (Root d) (Folder d) (dirs d) ((files d)(name \<mapsto> f))"

text \<open>
  The set \<^verbatim>\<open>coverArt\<close>: \<open>Add\<close> keeps one copy of each value. The list holds the values in
  the order in which they came, which stands for the order of \<^verbatim>\<open>Enumerate\<close>.
\<close>

definition Add :: "'a \<Rightarrow> 'a list \<Rightarrow> 'a list" where
  "Add x xs = (if x \<in> set xs then xs else xs @ [x])"

text \<open>
  The state of a listing under way: the slice \<^verbatim>\<open>directories\<close>, the directory with its
  maps, and the set \<^verbatim>\<open>coverArt\<close>.
\<close>

type_synonym listing = "Dirent list \<times> SubDir \<times> int64 list"

fun listDirectories :: "Directory list \<Rightarrow> listing \<Rightarrow> listing" where
  "listDirectories [] st = st"
| "listDirectories (dir # rest) (directories, d, coverArt) =
     (let title = replaceBadChars (Directory.Title dir)
      in listDirectories rest
           (directories @ [\<lparr>Dirent.Name = title, Type = DT_Dir\<rparr>],
            putDir title (NewSubDir (Directory.ID dir) False False) d,
            Add (Directory.CoverArt dir) coverArt))"

text \<open>
  The estimate \<^verbatim>\<open>((a.DurationRaw * 320) / 8) * 1024\<close>; Go's \<^verbatim>\<open>/\<close> on integers rounds
  towards zero.
\<close>

definition estimate :: "Audio \<Rightarrow> int64" where
  "estimate a = word_of_int (sint (DurationRaw a * 320) sdiv 8) * 1024"

text \<open>
  The body of \<^verbatim>\<open>for _, t := range transcodes\<close> up to the two stores: \<open>None\<close> where the
  source says \<^verbatim>\<open>continue\<close> (empty suffix, or the template failed), else the file name
  and the \<^verbatim>\<open>SubFile\<close> stored under it.
\<close>

definition variantFile ::
  "(filenameCtx \<Rightarrow> error + string) \<Rightarrow> Audio \<Rightarrow> transcode \<Rightarrow> (string \<times> SubFile) option" where
  "variantFile filenameTemplate a t =
     (if suffix t = [] then None
      else
        (case filenameTemplate (mkFilenameCtx a t) of
           Inl e \<Rightarrow> None
         | Inr rendered \<Rightarrow>
             (let filename = replaceBadChars rendered
              in Some (filename,
                   \<lparr>SubFile.ID = Audio.ID a, SubFile.Created = Audio.Created a, FileName = filename,
                    IsArt = False, IsVideo = False, Lossless = (size' t \<noteq> 0),
                    SubFile.Size = (if size' t = 0 then estimate a else size' t)\<rparr>))))"

fun listTranscodes ::
  "(filenameCtx \<Rightarrow> error + string) \<Rightarrow> Audio \<Rightarrow> transcode list \<Rightarrow> listing \<Rightarrow> listing" where
  "listTranscodes filenameTemplate a [] st = st"
| "listTranscodes filenameTemplate a (t # ts) (directories, d, coverArt) =
     (case variantFile filenameTemplate a t of
        None \<Rightarrow> listTranscodes filenameTemplate a ts (directories, d, coverArt)
      | Some (filename, f) \<Rightarrow>
          listTranscodes filenameTemplate a ts
            (directories @ [\<lparr>Dirent.Name = filename, Type = DT_File\<rparr>],
             putFile filename f d,
             Add (Audio.CoverArt a) coverArt))"

fun listAudio :: "(filenameCtx \<Rightarrow> error + string) \<Rightarrow> Audio list \<Rightarrow> listing \<Rightarrow> listing" where
  "listAudio filenameTemplate [] st = st"
| "listAudio filenameTemplate (a # rest) st =
     listAudio filenameTemplate rest (listTranscodes filenameTemplate a (transcodes a) st)"

fun listVideo :: "Video list \<Rightarrow> listing \<Rightarrow> listing" where
  "listVideo [] st = st"
| "listVideo (v # rest) (directories, d, coverArt) =
     (let videoFormat = replaceBadChars (Video.Title v @ ''.'' @ Video.Suffix v)
      in listVideo rest
           (directories @ [\<lparr>Dirent.Name = videoFormat, Type = DT_File\<rparr>],
            putFile videoFormat
              \<lparr>SubFile.ID = Video.ID v, SubFile.Created = Video.Created v, FileName = videoFormat,
               IsArt = False, IsVideo = True, Lossless = False, SubFile.Size = Video.Size v\<rparr> d,
            Add (Video.CoverArt v) coverArt))"

text \<open>The loop over \<^verbatim>\<open>coverArt.Enumerate()\<close>; \<open>Created = 0\<close> is the zero time.\<close>

fun listCoverArt :: "int64 list \<Rightarrow> Dirent list \<times> SubDir \<Rightarrow> Dirent list \<times> SubDir" where
  "listCoverArt [] st = st"
| "listCoverArt (c # rest) (directories, d) =
     (let coverArtFormat = showInt64 c @ ''.jpg''
      in listCoverArt rest
           (directories @ [\<lparr>Dirent.Name = coverArtFormat, Type = DT_File\<rparr>],
            putFile coverArtFormat
              \<lparr>SubFile.ID = c, SubFile.Created = 0, FileName = coverArtFormat,
               IsArt = True, IsVideo = False, Lossless = False, SubFile.Size = 0\<rparr> d))"

text \<open>The two loops over \<^verbatim>\<open>artistsIndex\<close>: at the root, and in a music folder.\<close>

fun listFolders :: "artistsIndex \<Rightarrow> Dirent list \<times> SubDir \<Rightarrow> Dirent list \<times> SubDir" where
  "listFolders [] st = st"
| "listFolders ((folder, artists) # rest) (directories, d) =
     listFolders rest
       (directories @ [\<lparr>Dirent.Name = MusicFolder.Name folder, Type = DT_Dir\<rparr>],
        putDir (MusicFolder.Name folder) (NewSubDir (MusicFolder.ID folder) False True) d)"

fun listArtists :: "IndexArtist list \<Rightarrow> Dirent list \<times> SubDir \<Rightarrow> Dirent list \<times> SubDir" where
  "listArtists [] st = st"
| "listArtists (a # rest) (directories, d) =
     listArtists rest
       (directories @ [\<lparr>Dirent.Name = IndexArtist.Name a, Type = DT_Dir\<rparr>],
        putDir (IndexArtist.Name a) (NewSubDir (IndexArtist.ID a) False False) d)"

fun listIndex :: "artistsIndex \<Rightarrow> Dirent list \<times> SubDir \<Rightarrow> Dirent list \<times> SubDir" where
  "listIndex [] st = st"
| "listIndex ((folder, artists) # rest) (directories, d) =
     (if SubDir.ID d = MusicFolder.ID folder \<or> SubDir.ID d = - 1
      then listIndex rest (listArtists artists (directories, d))
      else listIndex rest (directories, d))"

text \<open>
  What \<^verbatim>\<open>ReadDir\<close> reads from outside: the global \<^verbatim>\<open>artistsIndex\<close>; the channel
  \<^verbatim>\<open>indexChan\<close>, as the index found once a value has been received from it, or \<open>None\<close>
  when no value ever comes; the remote listing of a directory id; and the template.
\<close>

record library =
  artistsIndex :: artistsIndex
  indexChan :: "artistsIndex option"
  GetMusicDirectory :: "int64 \<Rightarrow> error + Content"
  filenameTemplate :: "filenameCtx \<Rightarrow> error + string"

datatype listed = Entries "Dirent list" | Failure Errno | Waiting

definition ReadDir :: "library \<Rightarrow> SubDir \<Rightarrow> listed \<times> SubDir" where
  "ReadDir lib d =
     (if Root d then
        (case (if length (artistsIndex lib) = 0 then indexChan lib
               else Some (artistsIndex lib)) of
           None \<Rightarrow> (Waiting, d)
         | Some idx \<Rightarrow>
             (case listFolders idx
                     ([\<lparr>Dirent.Name = ''All'', Type = DT_Dir\<rparr>],
                      putDir ''All'' (NewSubDir (- 1) False True) d) of
                (directories, d') \<Rightarrow> (Entries directories, d')))
      else if Folder d then
        (case listIndex (artistsIndex lib) ([], d) of
           (directories, d') \<Rightarrow> (Entries directories, d'))
      else
        (case GetMusicDirectory lib (SubDir.ID d) of
           Inl e \<Rightarrow> (Failure ENOENT, d)
         | Inr content \<Rightarrow>
             (case listVideo (Video content)
                     (listAudio (filenameTemplate lib) (Audio content)
                        (listDirectories (Directories content) ([], d, []))) of
                (directories, d', coverArt) \<Rightarrow>
                  (case listCoverArt coverArt (directories, d') of
                     (directories', d'') \<Rightarrow> (Entries directories', d'')))))"

section \<open>The mutating operations of a directory\<close>

text \<open>
  The request, response and interrupt types of the FUSE library carry nothing that
  these methods read. A nil node or handle is \<open>None\<close>.
\<close>

typedecl CreateRequest
typedecl CreateResponse
typedecl FsyncRequest
typedecl LinkRequest
typedecl MkdirRequest
typedecl MknodRequest
typedecl RemoveRequest
typedecl RemovexattrRequest
typedecl RenameRequest
typedecl SetattrRequest
typedecl SetattrResponse
typedecl SetxattrRequest
typedecl SymlinkRequest
typedecl Intr

datatype Node = DirNode SubDir | FileNode SubFile

definition Create ::
  "SubDir \<Rightarrow> CreateRequest \<Rightarrow> CreateResponse \<Rightarrow> Intr \<Rightarrow> Node option \<times> Node option \<times> fuse_Error" where
  "Create d req res i = (None, None, Some EROFS)"

definition Fsync :: "SubDir \<Rightarrow> FsyncRequest \<Rightarrow> Intr \<Rightarrow> fuse_Error" where
  "Fsync d req i = Some EROFS"

definition Link :: "SubDir \<Rightarrow> LinkRequest \<Rightarrow> Node \<Rightarrow> Intr \<Rightarrow> Node option \<times> fuse_Error" where
  "Link d req node i = (None, Some EROFS)"

definition Mkdir :: "SubDir \<Rightarrow> MkdirRequest \<Rightarrow> Intr \<Rightarrow> Node option \<times> fuse_Error" where
  "Mkdir d req i = (None, Some EROFS)"

definition Mknod :: "SubDir \<Rightarrow> MknodRequest \<Rightarrow> Intr \<Rightarrow> Node option \<times> fuse_Error" where
  "Mknod d req i = (None, Some EROFS)"

definition Remove :: "SubDir \<Rightarrow> RemoveRequest \<Rightarrow> Intr \<Rightarrow> fuse_Error" where
  "Remove d req i = Some EROFS"

definition Removexattr :: "SubDir \<Rightarrow> RemovexattrRequest \<Rightarrow> Intr \<Rightarrow> fuse_Error" where
  "Removexattr d req i = Some EROFS"

definition Rename :: "SubDir \<Rightarrow> RenameRequest \<Rightarrow> Node \<Rightarrow> Intr \<Rightarrow> fuse_Error" where
  "Rename d req node i = Some EROFS"

definition Setattr :: "SubDir \<Rightarrow> SetattrRequest \<Rightarrow> SetattrResponse \<Rightarrow> Intr \<Rightarrow> fuse_Error" where
  "Setattr d req res i = Some EROFS"

definition Setxattr :: "SubDir \<Rightarrow> SetxattrRequest \<Rightarrow> Intr \<Rightarrow> fuse_Error" where
  "Setxattr d req i = Some EROFS"

definition Symlink :: "SubDir \<Rightarrow> SymlinkRequest \<Rightarrow> Intr \<Rightarrow> Node option \<times> fuse_Error" where
  "Symlink d req i = (None, Some EROFS)"

section \<open>What a listing stores\<close>

text \<open>
  Notions in which the properties of \<^verbatim>\<open>ReadDir\<close> are stated; none of them is part of the
  program. \<open>audioFiles\<close> is the sequence of names and files that the loop over the audio
  records stores, in the order in which it stores them; \<open>videoNames\<close> is the sequence of
  the names given to the videos; \<open>fileDirent\<close> is the directory entry appended for a
  stored file; \<open>store\<close> is the map after a sequence of stores.
\<close>

definition audioFiles ::
  "(filenameCtx \<Rightarrow> error + string) \<Rightarrow> Audio list \<Rightarrow> (string \<times> SubFile) list" where
  "audioFiles tmpl as =
     concat (map (\<lambda>a. List.map_filter (variantFile tmpl a) (transcodes a)) as)"

definition videoNames :: "Video list \<Rightarrow> string list" where
  "videoNames vs = map (\<lambda>v. replaceBadChars (Video.Title v @ ''.'' @ Video.Suffix v)) vs"

definition fileDirent :: "string \<times> SubFile \<Rightarrow> Dirent" where
  "fileDirent e = \<lparr>Dirent.Name = fst e, Type = DT_File\<rparr>"

definition store ::
  "(string \<times> SubFile) list \<Rightarrow> (string \<rightharpoonup> SubFile) \<Rightarrow> (string \<rightharpoonup> SubFile)" where
  "store E m = fold (\<lambda>e m. m(fst e \<mapsto> snd e)) E m"

section \<open>What the running total accounts for\<close>

text \<open>
  The total accounts for the cache under a table \<open>declared\<close> of sizes by file name
  when the cache has finitely many records and the total is the sum of the declared
  sizes of their names.
\<close>

definition accounted :: "(string \<Rightarrow> int64) \<Rightarrow> cache \<Rightarrow> bool" where
  "accounted declared c =
     (finite (dom (fileCache c)) \<and> cacheTotal c = (\<Sum>n\<in>dom (fileCache c). declared n))"

section \<open>Concrete inputs\<close>


definition medium :: SubFile where
  "medium =
     \<lparr>SubFile.ID = 3, SubFile.Created = 0, FileName = ''03 - X - Tune.mp3'', IsArt = False,
      IsVideo = False, Lossless = True, SubFile.Size = 2000000\<rparr>"

definition exact :: SubFile where
  "exact =
     \<lparr>SubFile.ID = 6, SubFile.Created = 0, FileName = ''04 - X - Exact.mp3'', IsArt = False,
      IsVideo = False, Lossless = True, SubFile.Size = 1048576\<rparr>"

definition hollow :: SubFile where
  "hollow =
     \<lparr>SubFile.ID = 2, SubFile.Created = 0, FileName = ''02 - X - Silence.mp3'', IsArt = False,
      IsVideo = False, Lossless = True, SubFile.Size = 0\<rparr>"

definition track :: SubFile where
  "track =
     \<lparr>SubFile.ID = 4, SubFile.Created = 0, FileName = ''01 - X - Intro.mp3'', IsArt = False,
      IsVideo = False, Lossless = True, SubFile.Size = 10\<rparr>"

definition namesake :: SubFile where
  "namesake =
     \<lparr>SubFile.ID = 5, SubFile.Created = 0, FileName = ''01 - X - Intro.mp3'', IsArt = False,
      IsVideo = False, Lossless = True, SubFile.Size = 20\<rparr>"

text \<open>
  A world in which every step succeeds: the stream gives \<open>file\<close>, the temporary file
  is created and written, and reading a cached file gives the same bytes back. A world
  in which the cached files are gone and the server does not answer.
\<close>

definition healthy :: "bytes \<Rightarrow> world" where
  "healthy file =
     \<lparr>ReadFile = (\<lambda>p. (file, None)), Close = (\<lambda>p. None), Stream = (\<lambda>i. Streamed file),
      TempFile = Inr (os_File ''/tmp/subfs1''), Write = None, intr = False\<rparr>"

definition unreachable :: world where
  "unreachable =
     \<lparr>ReadFile = (\<lambda>p. ([], Some (''open '' @ p @ '': no such file or directory''))),
      Close = (\<lambda>p. None), Stream = (\<lambda>i. OpenFails ''connection refused''),
      TempFile = Inr (os_File ''/tmp/subfs2''), Write = None, intr = False\<rparr>"

text \<open>
  Three turns of the refresh loop: one in which the server is down, one in which it
  lists the folders and fails on their indexes, and a good one.
\<close>

definition outage :: cycle where
  "outage =
     \<lparr>GetMusicFolders = Inl ''connection refused'',
      GetIndexes = (\<lambda>i. Inl ''connection refused''), receiver = True\<rparr>"

definition indexless :: cycle where
  "indexless =
     \<lparr>GetMusicFolders = Inr [\<lparr>MusicFolder.ID = 1, Name = ''Music''\<rparr>],
      GetIndexes = (\<lambda>i. Inl ''connection refused''), receiver = True\<rparr>"

definition recovered :: cycle where
  "recovered =
     \<lparr>GetMusicFolders = Inr [\<lparr>MusicFolder.ID = 1, Name = ''Music''\<rparr>],
      GetIndexes =
        (\<lambda>i. Inr [\<lparr>Index.Artist =
                     [\<lparr>IndexArtist.ID = 10, Name = ''X''\<rparr>,
                      \<lparr>IndexArtist.ID = 11, Name = ''Y''\<rparr>]\<rparr>]),
      receiver = True\<rparr>"

text \<open>
  The template \<^verbatim>\<open>{{.A.Track}}-{{.A.Title}}.{{.A.Suffix}}\<close> as parsed; a track that the
  server does not transcode and one that it does; an ordinary directory; and a library
  whose every directory holds the given audio records and nothing else.
\<close>

definition trackTitle :: template where
  "trackTitle =
     [FieldNode [''A'', ''Track''], TextNode ''-'', FieldNode [''A'', ''Title''], TextNode ''.'',
      FieldNode [''A'', ''Suffix'']]"

definition song :: Audio where
  "song =
     \<lparr>Audio.ID = 7, Created = 0, Artist = ''X'', Album = ''Y'', Track = 3, Title = ''Song'',
      Suffix = ''mp3'', TranscodedSuffix = [], Size = 1000, DurationRaw = 10,
      Path = ''X/Y/Song.mp3'', CoverArt = 5\<rparr>"

definition lossless :: Audio where
  "lossless =
     \<lparr>Audio.ID = 9, Created = 0, Artist = ''X'', Album = ''Y'', Track = 3, Title = ''Song'',
      Suffix = ''flac'', TranscodedSuffix = ''mp3'', Size = 5000, DurationRaw = 10,
      Path = ''X/Y/Song.flac'', CoverArt = 5\<rparr>"

definition album :: SubDir where
  "album = NewSubDir 20 False False"

definition shelf :: "template \<Rightarrow> Audio list \<Rightarrow> library" where
  "shelf t as =
     \<lparr>artistsIndex = [], indexChan = None,
      GetMusicDirectory = (\<lambda>i. Inr \<lparr>Directories = [], Audio = as, Video = []\<rparr>),
      filenameTemplate = Execute t\<rparr>"

section \<open>Properties of the cache\<close>

subsection \<open>The running total\<close>

text \<open>
  As long as the entries read under one file name all declare the same size, each
  block of the goroutine keeps the total equal to the sum over the records.
\<close>

lemma cacheCheck_accounted:
  assumes "accounted declared c" and "SubFile.Size s = declared (FileName s)"
    and "cacheCheck s w c = (r, l, c')"
  shows "accounted declared c' \<and> (r = Miss \<longrightarrow> FileName s \<notin> dom (fileCache c'))"
proof (cases "fileCache c (FileName s)")
  case None
  then show ?thesis
    using assms by (auto simp: cacheCheck_def)
next
  case (Some cFile)
  have fin: "finite (dom (fileCache c))"
    and tot: "cacheTotal c = (\<Sum>n\<in>dom (fileCache c). declared n)"
    using assms(1) by (simp_all add: accounted_def)
  have mem: "FileName s \<in> dom (fileCache c)"
    using Some by auto
  have "(\<Sum>n\<in>dom (fileCache c) - {FileName s}. declared n)
          = cacheTotal c - declared (FileName s)"
    using fin mem tot by (simp add: sum_diff1)
  then have "accounted declared
     (c\<lparr>fileCache := (fileCache c)(FileName s := None),
        cacheTotal := cacheTotal c + (- 1) * SubFile.Size s\<rparr>)"
    using fin assms(2) by (simp add: accounted_def)
  then show ?thesis
    using assms Some
    by (auto simp: cacheCheck_def split: prod.splits option.splits if_splits)
qed

lemma admit_accounted:
  assumes "accounted declared c" and "SubFile.Size s = declared (FileName s)"
    and "FileName s \<notin> dom (fileCache c)"
  shows "accounted declared (snd (admit cacheSize s w c))"
proof -
  have "accounted declared
     (c\<lparr>fileCache := (fileCache c)(FileName s \<mapsto> f),
        cacheTotal := cacheTotal c + SubFile.Size s\<rparr>)" for f
    using assms by (simp add: accounted_def)
  then show ?thesis
    using assms(1) by (auto simp: admit_def split: sum.splits option.splits)
qed

lemma ReadAll_accounted:
  assumes "accounted declared c" and "SubFile.Size s = declared (FileName s)"
  shows "accounted declared (snd (snd (ReadAll cacheSize s w c)))"
proof -
  obtain r l c1 where cc: "cacheCheck s w c = (r, l, c1)"
    by (cases "cacheCheck s w c") auto
  have c1: "accounted declared c1" and miss: "r = Miss \<Longrightarrow> FileName s \<notin> dom (fileCache c1)"
    using cacheCheck_accounted [OF assms cc] by simp_all
  show ?thesis
  proof (cases r)
    case Miss
    have "accounted declared (snd (admit cacheSize s w c1))"
      using c1 assms(2) miss [OF Miss] by (rule admit_accounted)
    then show ?thesis
      using cc Miss c1
      by (auto simp: ReadAll_def fetch_def split: prod.splits stream_outcome.splits)
  qed (use cc c1 in \<open>simp_all add: ReadAll_def\<close>)
qed

lemma reads_accounted:
  assumes "accounted declared c"
    and "\<forall>(s, w)\<in>set ops. SubFile.Size s = declared (FileName s)"
    and "reads cacheSize ops c = Some c'"
  shows "accounted declared c'"
  using assms
proof (induction ops arbitrary: c)
  case Nil
  then show ?case by simp
next
  case (Cons op ops)
  obtain s w where op: "op = (s, w)" by (cases op)
  obtain r l c1 where ra: "ReadAll cacheSize s w c = (r, l, c1)"
    by (cases "ReadAll cacheSize s w c") auto
  have "accounted declared c1"
    using ReadAll_accounted [of declared c s cacheSize w] Cons.prems(1,2) op ra by simp
  moreover have "reads cacheSize ops c1 = Some c'"
    using Cons.prems(3) op ra by (cases r) simp_all
  ultimately show ?case
    using Cons.IH Cons.prems(2) by simp
qed

text \<open>
  C1. The total does not stay equal to the sum of the sizes of the records in every
  sequence of reads. \<open>track\<close> (10 bytes) is read and stored; then \<open>namesake\<close>, an entry
  with the same file name and 20 bytes, is read once the temporary file is gone and
  while the server is down. The record is removed and 20 is subtracted: the cache map
  is empty, over which every sum of sizes is 0, and the total is \<open>- 10\<close>: under no
  table of declared sizes does the total account for the cache.
\<close>

theorem C1_total_drifts:
  "reads 100 [(track, healthy [1, 2, 3])] emptyCache
     = Some \<lparr>fileCache = [FileName track \<mapsto> os_File ''/tmp/subfs1''], cacheTotal = 10\<rparr>
   \<and> reads 100 [(track, healthy [1, 2, 3]), (namesake, unreachable)] emptyCache
     = Some \<lparr>fileCache = Map.empty, cacheTotal = - 10\<rparr>
   \<and> \<not> accounted declared \<lparr>fileCache = Map.empty, cacheTotal = - 10\<rparr>"
  by (simp add: ReadAll_def cacheCheck_def fetch_def admit_def deliver_def emptyCache_def
      healthy_def unreachable_def track_def namesake_def accounted_def)

subsection \<open>A stream that fails\<close>

lemma cacheCheck_log:
  "cacheCheck s w c = (r, l, c') \<Longrightarrow> count_list l OpeningStream = 0"
  by (auto simp: cacheCheck_def split: option.splits prod.splits if_splits)

text \<open>
  C2, as the claim states it, fails: with no record in the cache and a stream that
  cannot be opened, \<open>ReadAll\<close> returns the nil bytes together with a nil error, not an
  error.
\<close>

theorem C2_counterexample:
  "fileCache emptyCache (FileName track) = None
   \<and> Stream unreachable (SubFile.ID track) = OpenFails ''connection refused''
   \<and> fst (ReadAll 100 track unreachable emptyCache) = Returned [] None"
  by (simp add: ReadAll_def cacheCheck_def fetch_def deliver_def emptyCache_def unreachable_def)

text \<open>
  C2, amended. For every read that is not answered from the cache (the first block
  ends in \<open>Miss\<close>, leaving the cache \<open>c1\<close>), if opening, reading or closing the stream
  fails with \<open>e\<close>, then \<open>ReadAll\<close> returns the nil bytes with a nil error (with \<open>EINTR\<close>
  when the interrupt is taken), logs the failure, leaves the cache as \<open>c1\<close>, and has
  opened the stream exactly once.
\<close>

theorem C2_failed_stream:
  assumes "cacheCheck s w c = (Miss, l, c1)"
    and "Stream w (SubFile.ID s) \<in> {OpenFails e, ReadFails e, CloseFails e}"
  shows "ReadAll cacheSize s w c =
           (if intr w then Returned [] (Some EINTR) else Returned [] None,
            l @ [OpeningStream, LogError e], c1)
         \<and> count_list (fst (snd (ReadAll cacheSize s w c))) OpeningStream = 1"
proof -
  have r: "ReadAll cacheSize s w c =
           (if intr w then Returned [] (Some EINTR) else Returned [] None,
            l @ [OpeningStream, LogError e], c1)"
    using assms by (auto simp: ReadAll_def fetch_def deliver_def)
  moreover have "count_list l OpeningStream = 0"
    using assms(1) by (rule cacheCheck_log)
  ultimately show ?thesis by simp
qed

theorem C2_failed_stream_witness:
  "cacheCheck track unreachable emptyCache = (Miss, [], emptyCache)
   \<and> Stream unreachable (SubFile.ID track)
       \<in> {OpenFails ''connection refused'', ReadFails ''connection refused'',
          CloseFails ''connection refused''}
   \<and> ReadAll 100 track unreachable emptyCache =
       (Returned [] None, [OpeningStream, LogError ''connection refused''], emptyCache)
   \<and> count_list (fst (snd (ReadAll 100 track unreachable emptyCache))) OpeningStream = 1"
proof -
  have 1: "cacheCheck track unreachable emptyCache = (Miss, [], emptyCache)"
    by (simp add: cacheCheck_def emptyCache_def)
  have 2: "Stream unreachable (SubFile.ID track)
       \<in> {OpenFails ''connection refused'', ReadFails ''connection refused'',
          CloseFails ''connection refused''}"
    by (simp add: unreachable_def)
  have 3: "\<not> intr unreachable"
    by (simp add: unreachable_def)
  show ?thesis
    using 1 2 3 C2_failed_stream [OF 1 2, of 100] by simp
qed

subsection \<open>A cached file that is gone or empty\<close>

text \<open>
  When the backing file is absent, the record is removed, the size of the entry is
  subtracted and the read goes on to the stream.
\<close>

lemma cacheCheck_absent:
  assumes "fileCache c (FileName s) = Some cFile"
    and "ReadFile w (os_File.Name cFile) = ([], Some msg)"
    and "Contains msg ''no such file or directory''"
  shows "fst (cacheCheck s w c) = Miss
         \<and> fileCache (snd (snd (cacheCheck s w c))) = (fileCache c)(FileName s := None)
         \<and> cacheTotal (snd (snd (cacheCheck s w c))) = cacheTotal c - SubFile.Size s"
  using assms by (simp add: cacheCheck_def)

text \<open>
  C3. When the backing file is there and empty, the read does not remove the record
  and fetch again: it panics. The empty entry \<open>hollow\<close> is read in a world where every
  step succeeds and the stream has no bytes; it is stored, as an empty temporary file.
  The second read of it finds the record, reads no bytes and no error, and panics.
\<close>

theorem C3_empty_backing_file_panics:
  "reads 100 [(hollow, healthy [])] emptyCache
     = Some \<lparr>fileCache = [FileName hollow \<mapsto> os_File ''/tmp/subfs1''], cacheTotal = 0\<rparr>
   \<and> ReadFile (healthy []) ''/tmp/subfs1'' = ([], None)
   \<and> fst (ReadAll 100 hollow (healthy [])
        \<lparr>fileCache = [FileName hollow \<mapsto> os_File ''/tmp/subfs1''], cacheTotal = 0\<rparr>) = Panicked
   \<and> reads 100 [(hollow, healthy []), (hollow, healthy [])] emptyCache = None"
  by (simp add: ReadAll_def cacheCheck_def fetch_def admit_def deliver_def emptyCache_def
      healthy_def hollow_def)

subsection \<open>Admission\<close>

text \<open>
  C4, as the claim states it, fails. With a budget of 1 MB, the read of an entry of
  exactly 1048576 bytes is stored and brings the total to the budget. The next read, of
  the empty entry \<open>hollow\<close>, finds the total at the budget, returns the bytes of the
  stream, and stores a second record.
\<close>

theorem C4_counterexample:
  "reads 1 [(exact, healthy [7])] emptyCache
     = Some \<lparr>fileCache = [FileName exact \<mapsto> os_File ''/tmp/subfs1''], cacheTotal = 1048576\<rparr>
   \<and> sint (1 * 1024 * 1024 :: int64) \<le> sint (1048576 :: int64)
   \<and> ReadAll 1 hollow ((healthy [1, 2, 3])\<lparr>TempFile := Inr (os_File ''/tmp/subfs2'')\<rparr>)
         \<lparr>fileCache = [FileName exact \<mapsto> os_File ''/tmp/subfs1''], cacheTotal = 1048576\<rparr>
     = (Returned [1, 2, 3] None,
        [OpeningStream, ClosingStream, CachingFile, CacheUse],
        \<lparr>fileCache = [FileName exact \<mapsto> os_File ''/tmp/subfs1'',
                      FileName hollow \<mapsto> os_File ''/tmp/subfs2''],
         cacheTotal = 1048576\<rparr>)"
  by (simp add: ReadAll_def cacheCheck_def fetch_def admit_def deliver_def emptyCache_def
      hollow_def exact_def healthy_def)

text \<open>
  C4, amended. For every read that reaches the admission checks (it is not answered
  from the cache, its stream succeeds and the interrupt is not taken), if the total
  found there is above the budget, or the total plus the size of the file, as the
  64-bit sum the program computes, is above the budget, then the bytes of the stream
  are returned with a nil error and the cache, map and total, is the one the checks
  found.
\<close>

theorem C4_over_budget_not_cached:
  assumes "cacheCheck s w c = (Miss, l, c1)"
    and "Stream w (SubFile.ID s) = Streamed file"
    and "\<not> intr w"
    and "sint (cacheSize * 1024 * 1024) < sint (cacheTotal c1)
         \<or> sint (cacheSize * 1024 * 1024) < sint (cacheTotal c1 + SubFile.Size s)"
  shows "fst (ReadAll cacheSize s w c) = Returned file None
         \<and> snd (snd (ReadAll cacheSize s w c)) = c1"
proof -
  have "snd (admit cacheSize s w c1) = c1"
    using assms(4) by (auto simp: admit_def)
  then show ?thesis
    using assms(1-3) by (auto simp: ReadAll_def fetch_def deliver_def split: prod.splits)
qed

theorem C4_over_budget_not_cached_witness:
  "cacheCheck medium (healthy [1, 2, 3]) emptyCache = (Miss, [], emptyCache)
   \<and> Stream (healthy [1, 2, 3]) (SubFile.ID medium) = Streamed [1, 2, 3]
   \<and> \<not> intr (healthy [1, 2, 3])
   \<and> sint (1 * 1024 * 1024 :: int64) < sint (cacheTotal emptyCache + SubFile.Size medium)
   \<and> fst (ReadAll 1 medium (healthy [1, 2, 3]) emptyCache) = Returned [1, 2, 3] None
   \<and> snd (snd (ReadAll 1 medium (healthy [1, 2, 3]) emptyCache)) = emptyCache"
proof -
  have 1: "cacheCheck medium (healthy [1, 2, 3]) emptyCache = (Miss, [], emptyCache)"
    by (simp add: cacheCheck_def emptyCache_def)
  have 2: "Stream (healthy [1, 2, 3]) (SubFile.ID medium) = Streamed [1, 2, 3]"
    by (simp add: healthy_def)
  have 3: "\<not> intr (healthy [1, 2, 3])"
    by (simp add: healthy_def)
  have 4: "sint (1 * 1024 * 1024 :: int64) < sint (cacheTotal emptyCache + SubFile.Size medium)"
    by (simp add: emptyCache_def medium_def)
  show ?thesis
    using 1 2 3 4 C4_over_budget_not_cached [OF 1 2 3 disjI2 [OF 4]] by simp
qed

subsection \<open>The ceiling of 50 MB\<close>






section \<open>Properties of the index refresh\<close>

lemma cacheIndexes_failure:
  "GetMusicFolders t = Inl e \<Longrightarrow>
   cacheIndexes (t # ts) idx
     = \<lparr>ending = HasReturned, index = idx, fetches = 1, lines = [FailedFolders e]\<rparr>"
  by simp

text \<open>
  C6. A failed fetch of the folder list does not abort one turn only: it ends the
  loop. After a good first turn, with the server down in the second turn and back in
  the third, the function has returned after two calls of \<open>GetMusicFolders\<close>: the
  third turn is never run, and the result is the same as without it. The index stored
  by the first turn is left as it was. A failed fetch of the indexes of a folder, for
  comparison, is followed by the next turn.
\<close>

theorem C6_refresh_ends:
  "cacheIndexes [recovered, outage, recovered] []
     = \<lparr>ending = HasReturned,
        index = [(\<lparr>MusicFolder.ID = 1, Name = ''Music''\<rparr>,
                  [\<lparr>IndexArtist.ID = 10, Name = ''X''\<rparr>, \<lparr>IndexArtist.ID = 11, Name = ''Y''\<rparr>])],
        fetches = 2,
        lines = [Caching 2, Finished, FailedFolders ''connection refused'']\<rparr>
   \<and> cacheIndexes [recovered, outage, recovered] [] = cacheIndexes [recovered, outage] []
   \<and> fetches (cacheIndexes [indexless, recovered] []) = 2"
  by (simp add: outage_def recovered_def indexless_def)

section \<open>Properties of the mutating operations\<close>

text \<open>
  C9. On every directory node and for every request, each of the eleven mutating
  operations (create, fsync, link, mkdir, mknod, remove, remove extended attribute,
  rename, set attributes, set extended attribute, symlink) answers with the error
  \<open>EROFS\<close>, and with no node or handle.
\<close>

theorem C9_mutations_rejected:
  "Create d creq cres i = (None, None, Some EROFS)
   \<and> Fsync d freq i = Some EROFS
   \<and> Link d lreq node i = (None, Some EROFS)
   \<and> Mkdir d mdreq i = (None, Some EROFS)
   \<and> Mknod d mnreq i = (None, Some EROFS)
   \<and> Remove d rreq i = Some EROFS
   \<and> Removexattr d rxreq i = Some EROFS
   \<and> Rename d rnreq node i = Some EROFS
   \<and> Setattr d sareq sares i = Some EROFS
   \<and> Setxattr d sxreq i = Some EROFS
   \<and> Symlink d slreq i = (None, Some EROFS)"
  by (simp add: Create_def Fsync_def Link_def Mkdir_def Mknod_def Remove_def
      Removexattr_def Rename_def Setattr_def Setxattr_def Symlink_def)

section \<open>Properties of a listing\<close>

subsection \<open>What each loop appends and stores\<close>

lemma files_putFile [simp]: "files (putFile n f d) = (files d)(n \<mapsto> f)"
  by (simp add: putFile_def)

lemma files_putDir [simp]: "files (putDir n sub d) = files d"
  by (simp add: putDir_def)

lemma listTranscodes_dirents:
  "fst (listTranscodes tmpl a ts (ds, d, cv))
     = ds @ map fileDirent (List.map_filter (variantFile tmpl a) ts)"
  by (induction ts arbitrary: ds d cv)
     (auto simp: List.map_filter_simps fileDirent_def split: option.splits)

lemma listTranscodes_files:
  "files (fst (snd (listTranscodes tmpl a ts (ds, d, cv))))
     = store (List.map_filter (variantFile tmpl a) ts) (files d)"
  by (induction ts arbitrary: ds d cv)
     (auto simp: List.map_filter_simps store_def split: option.splits)

lemma listAudio_dirents:
  "fst (listAudio tmpl as st) = fst st @ map fileDirent (audioFiles tmpl as)"
proof (induction as arbitrary: st)
  case Nil
  then show ?case by (simp add: audioFiles_def)
next
  case (Cons a as)
  obtain ds d cv where st: "st = (ds, d, cv)" by (cases st)
  show ?case
    using Cons.IH [of "listTranscodes tmpl a (transcodes a) st"]
      listTranscodes_dirents [of tmpl a "transcodes a" ds d cv]
    by (simp add: st audioFiles_def)
qed

lemma listAudio_files:
  "files (fst (snd (listAudio tmpl as st))) = store (audioFiles tmpl as) (files (fst (snd st)))"
proof (induction as arbitrary: st)
  case Nil
  then show ?case by (simp add: audioFiles_def store_def)
next
  case (Cons a as)
  obtain ds d cv where st: "st = (ds, d, cv)" by (cases st)
  show ?case
    using Cons.IH [of "listTranscodes tmpl a (transcodes a) st"]
      listTranscodes_files [of tmpl a "transcodes a" ds d cv]
    by (simp add: st audioFiles_def store_def)
qed

lemma store_other: "n \<notin> fst ` set E \<Longrightarrow> store E m n = m n"
  by (induction E arbitrary: m) (auto simp: store_def)

lemma store_last:
  "n \<notin> fst ` set post \<Longrightarrow> store (pre @ (n, f) # post) m n = Some f"
proof -
  assume "n \<notin> fst ` set post"
  then have "store post ((store pre m)(n \<mapsto> f)) n = ((store pre m)(n \<mapsto> f)) n"
    by (rule store_other)
  then show ?thesis by (simp add: store_def)
qed

lemma listDirectories_files:
  "files (fst (snd (listDirectories xs st))) = files (fst (snd st))"
proof (induction xs arbitrary: st)
  case Nil
  then show ?case by simp
next
  case (Cons x xs)
  obtain ds d cv where st: "st = (ds, d, cv)" by (cases st)
  show ?case
    using Cons.IH [of "(ds @ [\<lparr>Dirent.Name = replaceBadChars (Directory.Title x), Type = DT_Dir\<rparr>],
         putDir (replaceBadChars (Directory.Title x)) (NewSubDir (Directory.ID x) False False) d,
         Add (Directory.CoverArt x) cv)"]
    by (simp add: st Let_def)
qed

lemma listVideo_dirents:
  "fst (listVideo vs st)
     = fst st @ map (\<lambda>n. \<lparr>Dirent.Name = n, Type = DT_File\<rparr>) (videoNames vs)"
proof (induction vs arbitrary: st)
  case Nil
  then show ?case by (simp add: videoNames_def)
next
  case (Cons v vs)
  obtain ds d cv where st: "st = (ds, d, cv)" by (cases st)
  show ?case
    using Cons.IH by (simp add: st Let_def videoNames_def)
qed

lemma listVideo_files:
  "n \<notin> set (videoNames vs) \<Longrightarrow> files (fst (snd (listVideo vs st))) n = files (fst (snd st)) n"
proof (induction vs arbitrary: st)
  case Nil
  then show ?case by simp
next
  case (Cons v vs)
  obtain ds d cv where st: "st = (ds, d, cv)" by (cases st)
  show ?case
    using Cons by (simp add: st Let_def videoNames_def)
qed

lemma listCoverArt_dirents:
  "fst (listCoverArt cs st)
     = fst st @ map (\<lambda>c. \<lparr>Dirent.Name = showInt64 c @ ''.jpg'', Type = DT_File\<rparr>) cs"
proof (induction cs arbitrary: st)
  case Nil
  then show ?case by simp
next
  case (Cons c cs)
  obtain ds d where st: "st = (ds, d)" by (cases st)
  show ?case
    using Cons.IH by (simp add: st Let_def)
qed

lemma HasPrefix_append: "HasPrefix (p @ s) p"
  by (induction p) simp_all

lemma HasSuffix_append: "HasSuffix (s @ t) t"
  by (simp add: HasSuffix_def HasPrefix_append)

lemma listCoverArt_files:
  "\<not> HasSuffix n ''.jpg'' \<Longrightarrow> files (snd (listCoverArt cs st)) n = files (snd st) n"
proof (induction cs arbitrary: st)
  case Nil
  then show ?case by simp
next
  case (Cons c cs)
  obtain ds d where st: "st = (ds, d)" by (cases st)
  have "n \<noteq> showInt64 c @ ''.jpg''"
    using Cons.prems HasSuffix_append [of "showInt64 c" "''.jpg''"] by auto
  then show ?case
    using Cons by (simp add: st Let_def)
qed


lemma ordinary_listing:
  assumes "\<not> Root d" and "\<not> Folder d"
    and "GetMusicDirectory lib (SubDir.ID d) = Inr content"
  shows "\<exists>before after d'.
           ReadDir lib d =
             (Entries (before @ map fileDirent (audioFiles (filenameTemplate lib) (Audio content))
                @ after), d')
           \<and> (\<forall>n. n \<notin> set (videoNames (Video content)) \<and> \<not> HasSuffix n ''.jpg''
                 \<longrightarrow> files d' n
                       = store (audioFiles (filenameTemplate lib) (Audio content)) (files d) n)"
proof -
  define st1 where "st1 = listDirectories (Directories content) ([], d, [])"
  define st2 where "st2 = listAudio (filenameTemplate lib) (Audio content) st1"
  define st3 where "st3 = listVideo (Video content) st2"
  define st4 where "st4 = listCoverArt (snd (snd st3)) (fst st3, fst (snd st3))"
  have rd: "ReadDir lib d = (Entries (fst st4), snd st4)"
    using assms by (simp add: ReadDir_def st1_def st2_def st3_def st4_def split: prod.splits)
  have d2: "fst st2 = fst st1 @ map fileDirent (audioFiles (filenameTemplate lib) (Audio content))"
    unfolding st2_def by (rule listAudio_dirents)
  have d3: "fst st3 = fst st2
      @ map (\<lambda>n. \<lparr>Dirent.Name = n, Type = DT_File\<rparr>) (videoNames (Video content))"
    unfolding st3_def by (rule listVideo_dirents)
  have d4: "fst st4 = fst st3
      @ map (\<lambda>c. \<lparr>Dirent.Name = showInt64 c @ ''.jpg'', Type = DT_File\<rparr>) (snd (snd st3))"
    unfolding st4_def using listCoverArt_dirents [of "snd (snd st3)" "(fst st3, fst (snd st3))"]
    by simp
  have f1: "files (fst (snd st1)) = files d"
    unfolding st1_def using listDirectories_files [of "Directories content" "([], d, [])"] by simp
  have f2: "files (fst (snd st2))
      = store (audioFiles (filenameTemplate lib) (Audio content)) (files d)"
    unfolding st2_def using listAudio_files [of "filenameTemplate lib" "Audio content" st1] f1
    by simp
  have f34: "files (snd st4) n = files (fst (snd st2)) n"
    if "n \<notin> set (videoNames (Video content))" and "\<not> HasSuffix n ''.jpg''" for n
  proof -
    have "files (snd st4) n = files (fst (snd st3)) n"
      unfolding st4_def
      using listCoverArt_files [OF that(2), of "snd (snd st3)" "(fst st3, fst (snd st3))"] by simp
    also have "\<dots> = files (fst (snd st2)) n"
      unfolding st3_def using that(1) by (rule listVideo_files)
    finally show ?thesis .
  qed
  show ?thesis
    using rd d2 d3 d4 f2 f34 by (intro exI [of _ "fst st1"] exI) auto
qed



text \<open>
  Two stores under one name in the loop over the audio records: the listing has both
  entries, the map the second file.
\<close>

lemma same_name_listing:
  assumes "\<not> Root d" and "\<not> Folder d"
    and "GetMusicDirectory lib (SubDir.ID d) = Inr content"
    and "audioFiles (filenameTemplate lib) (Audio content) = pre @ (n, f1) # mid @ (n, f2) # post"
    and "n \<notin> fst ` set post"
    and "n \<notin> set (videoNames (Video content))"
    and "\<not> HasSuffix n ''.jpg''"
  shows "\<exists>ds d'. ReadDir lib d = (Entries ds, d')
           \<and> files d' n = Some f2
           \<and> 2 \<le> length (filter (\<lambda>e. Dirent.Name e = n) ds)"
proof -
  let ?E = "audioFiles (filenameTemplate lib) (Audio content)"
  obtain before after d' where rd:
    "ReadDir lib d = (Entries (before @ map fileDirent ?E @ after), d')"
    and keep: "\<forall>m. m \<notin> set (videoNames (Video content)) \<and> \<not> HasSuffix m ''.jpg''
                 \<longrightarrow> files d' m = store ?E (files d) m"
    using ordinary_listing [OF assms(1-3)] by blast
  have "store ?E (files d) n = Some f2"
    using store_last [OF assms(5), of "pre @ (n, f1) # mid" f2 "files d"] assms(4) by simp
  then have map: "files d' n = Some f2"
    using keep assms(6,7) by simp
  have "2 \<le> length (filter (\<lambda>e. Dirent.Name e = n) (map fileDirent ?E))"
    by (simp add: assms(4) fileDirent_def)
  then have "2 \<le> length (filter (\<lambda>e. Dirent.Name e = n) (before @ map fileDirent ?E @ after))"
    by simp
  with rd map show ?thesis by blast
qed

subsection \<open>Evaluating a listing\<close>

lemmas listing_simps =
  ReadDir_def shelf_def album_def NewSubDir_def song_def lossless_def trackTitle_def
  transcodes_def variantFile_def mkFilenameCtx_def evalField_def audioField_def
  showInt64_def showNat.simps replaceBadChars_def badChars_def Replace_def
  putFile_def putDir_def Add_def TrimSuffix_def HasSuffix_def estimate_def Let_def

subsection \<open>Two records under one name\<close>

text \<open>
  C7, as the claim states it, fails. Two audio records of track 3, ``Song'', \<open>mp3\<close>
  are listed with the template \<^verbatim>\<open>{{.A.Track}}-{{.A.Title}}.{{.A.Suffix}}\<close>: the listing
  that \<open>ReadDir\<close> returns has the name \<open>3-Song.mp3\<close> twice, not once.
\<close>

theorem C7_counterexample:
  "fst (ReadDir (shelf trackTitle [song, song\<lparr>Audio.ID := 8\<rparr>]) album)
     = Entries [\<lparr>Dirent.Name = ''3-Song.mp3'', Type = DT_File\<rparr>,
                \<lparr>Dirent.Name = ''3-Song.mp3'', Type = DT_File\<rparr>,
                \<lparr>Dirent.Name = ''5.jpg'', Type = DT_File\<rparr>]"
  by (simp add: listing_simps)

text \<open>
  C7, amended. In every listing of an ordinary directory in which two of the files
  stored for the audio records have one name \<open>n\<close>, \<open>ReadDir\<close> returns a listing
  (no error, no crash) that contains an entry of that name for each of them, so at
  least two, while the file map of the directory holds one file under \<open>n\<close>: the later
  of the two, when no audio file after it, no video and no cover art takes the name.
\<close>

theorem C7_same_name_twice:
  assumes "\<not> Root d" and "\<not> Folder d"
    and "GetMusicDirectory lib (SubDir.ID d) = Inr content"
    and "audioFiles (filenameTemplate lib) (Audio content) = pre @ (n, f1) # mid @ (n, f2) # post"
    and "n \<notin> fst ` set post"
    and "n \<notin> set (videoNames (Video content))"
    and "\<not> HasSuffix n ''.jpg''"
  shows "\<exists>ds d'. ReadDir lib d = (Entries ds, d')
           \<and> files d' n = Some f2
           \<and> 2 \<le> length (filter (\<lambda>e. Dirent.Name e = n) ds)"
  using assms by (rule same_name_listing)

theorem C7_same_name_twice_witness:
  "\<not> Root album \<and> \<not> Folder album
   \<and> GetMusicDirectory (shelf trackTitle [song, song\<lparr>Audio.ID := 8\<rparr>]) (SubDir.ID album)
       = Inr \<lparr>Directories = [], Audio = [song, song\<lparr>Audio.ID := 8\<rparr>], Video = []\<rparr>
   \<and> audioFiles (Execute trackTitle) [song, song\<lparr>Audio.ID := 8\<rparr>]
       = [(''3-Song.mp3'',
           \<lparr>SubFile.ID = 7, SubFile.Created = 0, FileName = ''3-Song.mp3'', IsArt = False,
            IsVideo = False, Lossless = True, SubFile.Size = 1000\<rparr>),
          (''3-Song.mp3'',
           \<lparr>SubFile.ID = 8, SubFile.Created = 0, FileName = ''3-Song.mp3'', IsArt = False,
            IsVideo = False, Lossless = True, SubFile.Size = 1000\<rparr>)]
   \<and> (\<exists>ds d'. ReadDir (shelf trackTitle [song, song\<lparr>Audio.ID := 8\<rparr>]) album = (Entries ds, d')
         \<and> files d' ''3-Song.mp3''
             = Some \<lparr>SubFile.ID = 8, SubFile.Created = 0, FileName = ''3-Song.mp3'', IsArt = False,
                     IsVideo = False, Lossless = True, SubFile.Size = 1000\<rparr>
         \<and> 2 \<le> length (filter (\<lambda>e. Dirent.Name e = ''3-Song.mp3'') ds))"
proof -
  let ?lib = "shelf trackTitle [song, song\<lparr>Audio.ID := 8\<rparr>]"
  let ?f1 = "\<lparr>SubFile.ID = 7, SubFile.Created = 0, FileName = ''3-Song.mp3'', IsArt = False,
            IsVideo = False, Lossless = True, SubFile.Size = 1000\<rparr>"
  let ?f2 = "\<lparr>SubFile.ID = 8, SubFile.Created = 0, FileName = ''3-Song.mp3'', IsArt = False,
            IsVideo = False, Lossless = True, SubFile.Size = 1000\<rparr>"
  have 1: "\<not> Root album" and 2: "\<not> Folder album"
    by (simp_all add: album_def NewSubDir_def)
  have 3: "GetMusicDirectory ?lib (SubDir.ID album)
       = Inr \<lparr>Directories = [], Audio = [song, song\<lparr>Audio.ID := 8\<rparr>], Video = []\<rparr>"
    by (simp add: shelf_def)
  have E: "audioFiles (Execute trackTitle) [song, song\<lparr>Audio.ID := 8\<rparr>]
             = [(''3-Song.mp3'', ?f1), (''3-Song.mp3'', ?f2)]"
    by (simp add: audioFiles_def List.map_filter_simps listing_simps)
  have 4: "audioFiles (filenameTemplate ?lib)
             (Audio \<lparr>Directories = [], Audio = [song, song\<lparr>Audio.ID := 8\<rparr>], Video = []\<rparr>)
           = [] @ (''3-Song.mp3'', ?f1) # [] @ (''3-Song.mp3'', ?f2) # []"
    using E by (simp add: shelf_def)
  have 5: "''3-Song.mp3'' \<notin> fst ` set ([] :: (string \<times> SubFile) list)"
    by simp
  have 6: "''3-Song.mp3''
       \<notin> set (videoNames (Video \<lparr>Directories = [], Audio = [song, song\<lparr>Audio.ID := 8\<rparr>], Video = []\<rparr>))"
    by (simp add: videoNames_def)
  have 7: "\<not> HasSuffix ''3-Song.mp3'' ''.jpg''"
    by (simp add: HasSuffix_def)
  show ?thesis
    using 1 2 3 E C7_same_name_twice [OF 1 2 3 4 5 6 7] by simp
qed



subsection \<open>The name of a track\<close>



subsection \<open>The two variants of a track\<close>

lemma evalField_Basename:
  "''Basename'' \<notin> set p \<Longrightarrow> evalField (c\<lparr>Basename := b\<rparr>) p = evalField c p"
  by (auto simp: evalField_def split: list.splits)

lemma Execute_Basename:
  "\<not> mentions t ''Basename'' \<Longrightarrow> Execute t (c\<lparr>Basename := b\<rparr>) = Execute t c"
  by (induction t c rule: Execute.induct)
     (auto simp: evalField_Basename split: sum.splits)

lemma audioFiles_append:
  "audioFiles tmpl (xs @ ys) = audioFiles tmpl xs @ audioFiles tmpl ys"
  by (simp add: audioFiles_def)

lemma audioFiles_both:
  assumes "Audio.Suffix a \<noteq> []" and "TranscodedSuffix a \<noteq> []"
    and "\<forall>c b. tmpl (c\<lparr>Basename := b\<rparr>) = tmpl c"
    and "tmpl (mkFilenameCtx a (transcodes a ! 0)) = Inr rendered"
  shows "tmpl (mkFilenameCtx a (transcodes a ! 1)) = Inr rendered"
    and "audioFiles tmpl [a] =
      [(replaceBadChars rendered,
        \<lparr>SubFile.ID = Audio.ID a, SubFile.Created = Audio.Created a,
         FileName = replaceBadChars rendered, IsArt = False, IsVideo = False,
         Lossless = (Audio.Size a \<noteq> 0),
         SubFile.Size = (if Audio.Size a = 0 then estimate a else Audio.Size a)\<rparr>),
       (replaceBadChars rendered,
        \<lparr>SubFile.ID = Audio.ID a, SubFile.Created = Audio.Created a,
         FileName = replaceBadChars rendered, IsArt = False, IsVideo = False,
         Lossless = False, SubFile.Size = estimate a\<rparr>)]"
proof -
  have ctx: "mkFilenameCtx a (transcodes a ! 1)
      = (mkFilenameCtx a (transcodes a ! 0))
          \<lparr>Basename := TrimSuffix (Audio.Path a) (TranscodedSuffix a)\<rparr>"
    by (simp add: mkFilenameCtx_def transcodes_def)
  have same: "tmpl (c\<lparr>Basename := b\<rparr>) = tmpl c" for c b
    using assms(3) by blast
  show r: "tmpl (mkFilenameCtx a (transcodes a ! 1)) = Inr rendered"
    by (simp only: ctx same assms(4))
  have t: "transcodes a = [transcodes a ! 0, transcodes a ! 1]"
    by (simp add: transcodes_def)
  have s0: "suffix (transcodes a ! 0) = Audio.Suffix a" "size' (transcodes a ! 0) = Audio.Size a"
    and s1: "suffix (transcodes a ! 1) = TranscodedSuffix a" "size' (transcodes a ! 1) = 0"
    by (simp_all add: transcodes_def)
  have "audioFiles tmpl [a]
      = List.map_filter (variantFile tmpl a) [transcodes a ! 0, transcodes a ! 1]"
    using t by (simp add: audioFiles_def)
  then show "audioFiles tmpl [a] =
      [(replaceBadChars rendered,
        \<lparr>SubFile.ID = Audio.ID a, SubFile.Created = Audio.Created a,
         FileName = replaceBadChars rendered, IsArt = False, IsVideo = False,
         Lossless = (Audio.Size a \<noteq> 0),
         SubFile.Size = (if Audio.Size a = 0 then estimate a else Audio.Size a)\<rparr>),
       (replaceBadChars rendered,
        \<lparr>SubFile.ID = Audio.ID a, SubFile.Created = Audio.Created a,
         FileName = replaceBadChars rendered, IsArt = False, IsVideo = False,
         Lossless = False, SubFile.Size = estimate a\<rparr>)]"
    using assms(1,2,4) r s0 s1
    by (simp add: List.map_filter_simps variantFile_def Let_def)
qed


text \<open>
  C10, as the claim states it, fails. The template \<^verbatim>\<open>{{.Basename}}\<close> does not name the
  transcoded suffix, yet the two variants of a \<open>flac\<close> track that the server
  transcodes to \<open>mp3\<close> are rendered differently, and the original stays in the map.
\<close>

theorem C10_counterexample:
  "Parse ''{{.Basename}}'' = Inr [FieldNode [''Basename'']]
   \<and> \<not> mentions [FieldNode [''Basename'']] ''TranscodedSuffix''
   \<and> Audio.Suffix lossless = ''flac'' \<and> TranscodedSuffix lossless = ''mp3''
   \<and> fst (ReadDir (shelf [FieldNode [''Basename'']] [lossless]) album)
       = Entries [\<lparr>Dirent.Name = ''X_Y_Song.'', Type = DT_File\<rparr>,
                  \<lparr>Dirent.Name = ''X_Y_Song.flac'', Type = DT_File\<rparr>,
                  \<lparr>Dirent.Name = ''5.jpg'', Type = DT_File\<rparr>]
   \<and> files (snd (ReadDir (shelf [FieldNode [''Basename'']] [lossless]) album)) ''X_Y_Song.''
       = Some \<lparr>SubFile.ID = 9, SubFile.Created = 0, FileName = ''X_Y_Song.'', IsArt = False,
               IsVideo = False, Lossless = True, SubFile.Size = 5000\<rparr>"
proof -
  have "Parse ''{{.Basename}}'' = Inr [FieldNode [''Basename'']]"
    by (simp add: Parse_def fieldAction_def trimSpaces_def textNode_def isIdentChar_def)
  moreover have "fst (ReadDir (shelf [FieldNode [''Basename'']] [lossless]) album)
       = Entries [\<lparr>Dirent.Name = ''X_Y_Song.'', Type = DT_File\<rparr>,
                  \<lparr>Dirent.Name = ''X_Y_Song.flac'', Type = DT_File\<rparr>,
                  \<lparr>Dirent.Name = ''5.jpg'', Type = DT_File\<rparr>]"
    by (simp add: listing_simps)
  moreover have
    "files (snd (ReadDir (shelf [FieldNode [''Basename'']] [lossless]) album)) ''X_Y_Song.''
       = Some \<lparr>SubFile.ID = 9, SubFile.Created = 0, FileName = ''X_Y_Song.'', IsArt = False,
               IsVideo = False, Lossless = True, SubFile.Size = 5000\<rparr>"
    by (simp add: listing_simps)
  ultimately show ?thesis
    by (simp add: lossless_def)
qed

text \<open>
  C10, amended. For every audio record with a suffix and a transcoded suffix, the
  context of the transcoded variant has the suffix of the original in \<open>Suffix\<close> and
  differs from the context of the original in \<open>Basename\<close> only. Hence a template whose
  result does not depend on \<open>Basename\<close> renders one name for both variants; in the
  listing of an ordinary directory that name is then entered twice, and the file map
  holds under it the transcoded file (not lossless, size estimated), when no later
  audio file, no video and no cover art takes the name.
\<close>

theorem C10_transcoded_replaces_original:
  assumes "\<not> Root d" and "\<not> Folder d"
    and "GetMusicDirectory lib (SubDir.ID d) = Inr content"
    and "Audio content = earlier @ a # later"
    and "Audio.Suffix a \<noteq> []" and "TranscodedSuffix a \<noteq> []"
    and "\<forall>c b. filenameTemplate lib (c\<lparr>Basename := b\<rparr>) = filenameTemplate lib c"
    and "filenameTemplate lib (mkFilenameCtx a (transcodes a ! 0)) = Inr rendered"
    and "replaceBadChars rendered \<notin> fst ` set (audioFiles (filenameTemplate lib) later)"
    and "replaceBadChars rendered \<notin> set (videoNames (Video content))"
    and "\<not> HasSuffix (replaceBadChars rendered) ''.jpg''"
  shows "filenameCtx.Suffix (mkFilenameCtx a (transcodes a ! 1)) = Audio.Suffix a
    \<and> mkFilenameCtx a (transcodes a ! 1)
        = (mkFilenameCtx a (transcodes a ! 0))
            \<lparr>Basename := TrimSuffix (Audio.Path a) (TranscodedSuffix a)\<rparr>
    \<and> filenameTemplate lib (mkFilenameCtx a (transcodes a ! 1)) = Inr rendered
    \<and> (\<exists>ds d'. ReadDir lib d = (Entries ds, d')
          \<and> files d' (replaceBadChars rendered)
              = Some \<lparr>SubFile.ID = Audio.ID a, SubFile.Created = Audio.Created a,
                      FileName = replaceBadChars rendered, IsArt = False, IsVideo = False,
                      Lossless = False, SubFile.Size = estimate a\<rparr>
          \<and> 2 \<le> length (filter (\<lambda>e. Dirent.Name e = replaceBadChars rendered) ds))"
proof -
  let ?tmpl = "filenameTemplate lib"
  let ?n = "replaceBadChars rendered"
  let ?orig = "\<lparr>SubFile.ID = Audio.ID a, SubFile.Created = Audio.Created a,
         FileName = ?n, IsArt = False, IsVideo = False,
         Lossless = (Audio.Size a \<noteq> 0),
         SubFile.Size = (if Audio.Size a = 0 then estimate a else Audio.Size a)\<rparr>"
  let ?trans = "\<lparr>SubFile.ID = Audio.ID a, SubFile.Created = Audio.Created a,
         FileName = ?n, IsArt = False, IsVideo = False,
         Lossless = False, SubFile.Size = estimate a\<rparr>"
  have ctx: "mkFilenameCtx a (transcodes a ! 1)
      = (mkFilenameCtx a (transcodes a ! 0))
          \<lparr>Basename := TrimSuffix (Audio.Path a) (TranscodedSuffix a)\<rparr>"
    by (simp add: mkFilenameCtx_def transcodes_def)
  have suf: "filenameCtx.Suffix (mkFilenameCtx a (transcodes a ! 1)) = Audio.Suffix a"
    by (simp add: mkFilenameCtx_def)
  note both = audioFiles_both [OF assms(5,6,7,8)]
  have "audioFiles ?tmpl (Audio content)
      = audioFiles ?tmpl earlier @ (?n, ?orig) # [] @ (?n, ?trans) # audioFiles ?tmpl later"
    using both(2) audioFiles_append [of ?tmpl earlier "[a] @ later"]
      audioFiles_append [of ?tmpl "[a]" later]
    by (simp add: assms(4))
  from same_name_listing [OF assms(1,2,3) this assms(9,10,11)]
  show ?thesis
    using ctx suf both(1) by simp
qed


theorem C10_transcoded_replaces_original_witness:
  "\<not> Root album \<and> \<not> Folder album
   \<and> GetMusicDirectory (shelf trackTitle [lossless]) (SubDir.ID album)
       = Inr \<lparr>Directories = [], Audio = [lossless], Video = []\<rparr>
   \<and> Audio.Suffix lossless \<noteq> [] \<and> TranscodedSuffix lossless \<noteq> []
   \<and> (\<forall>c b. Execute trackTitle (c\<lparr>Basename := b\<rparr>) = Execute trackTitle c)
   \<and> Execute trackTitle (mkFilenameCtx lossless (transcodes lossless ! 0)) = Inr ''3-Song.flac''
   \<and> Execute trackTitle (mkFilenameCtx lossless (transcodes lossless ! 1)) = Inr ''3-Song.flac''
   \<and> filenameCtx.Suffix (mkFilenameCtx lossless (transcodes lossless ! 1)) = ''flac''
   \<and> (\<exists>ds d'. ReadDir (shelf trackTitle [lossless]) album = (Entries ds, d')
         \<and> files d' ''3-Song.flac''
             = Some \<lparr>SubFile.ID = 9, SubFile.Created = 0, FileName = ''3-Song.flac'',
                     IsArt = False, IsVideo = False, Lossless = False, SubFile.Size = 409600\<rparr>
         \<and> 2 \<le> length (filter (\<lambda>e. Dirent.Name e = ''3-Song.flac'') ds))"
proof -
  let ?lib = "shelf trackTitle [lossless]"
  let ?content = "\<lparr>Directories = [], Audio = [lossless], Video = []\<rparr>"
  have 1: "\<not> Root album" and 2: "\<not> Folder album"
    by (simp_all add: album_def NewSubDir_def)
  have 3: "GetMusicDirectory ?lib (SubDir.ID album) = Inr ?content"
    by (simp add: shelf_def)
  have 4: "Audio ?content = [] @ lossless # []"
    by simp
  have 5: "Audio.Suffix lossless \<noteq> []" and 6: "TranscodedSuffix lossless \<noteq> []"
    by (simp_all add: lossless_def)
  have t: "filenameTemplate ?lib = Execute trackTitle"
    by (simp add: shelf_def)
  have "\<not> mentions trackTitle ''Basename''"
    by (simp add: trackTitle_def)
  then have indep: "\<forall>c b. Execute trackTitle (c\<lparr>Basename := b\<rparr>) = Execute trackTitle c"
    by (simp add: Execute_Basename)
  then have 7: "\<forall>c b. filenameTemplate ?lib (c\<lparr>Basename := b\<rparr>) = filenameTemplate ?lib c"
    by (simp add: t)
  have r: "Execute trackTitle (mkFilenameCtx lossless (transcodes lossless ! 0))
             = Inr ''3-Song.flac''"
    by (simp add: listing_simps)
  then have 8: "filenameTemplate ?lib (mkFilenameCtx lossless (transcodes lossless ! 0))
             = Inr ''3-Song.flac''"
    by (simp add: t)
  have n: "replaceBadChars ''3-Song.flac'' = ''3-Song.flac''"
    by (simp add: listing_simps)
  have 9: "replaceBadChars ''3-Song.flac''
             \<notin> fst ` set (audioFiles (filenameTemplate ?lib) [])"
    by (simp add: audioFiles_def)
  have 10: "replaceBadChars ''3-Song.flac'' \<notin> set (videoNames (Video ?content))"
    by (simp add: videoNames_def)
  have 11: "\<not> HasSuffix (replaceBadChars ''3-Song.flac'') ''.jpg''"
    by (simp add: n HasSuffix_def)
  have e: "estimate lossless = 409600"
    by (simp add: estimate_def lossless_def)
  have s: "Audio.Suffix lossless = ''flac''" "Audio.ID lossless = 9" "Audio.Created lossless = 0"
    by (simp_all add: lossless_def)
  note c = C10_transcoded_replaces_original [OF 1 2 3 4 5 6 7 8 9 10 11, unfolded t n e s]
  show ?thesis
    using 1 2 3 5 6 indep r c by blast
qed

end
